theory Spec2Isabelle
  imports Main "HOL-Library.AList"
begin

section \<open>Values on the wire and in the server process\<close>

text \<open>
  The server (\<^verbatim>\<open>ModelServer\<close>, carried in \<^verbatim>\<open>src/README.md\<close>) and the client
  (\<^verbatim>\<open>src/lib/client.js\<close>) exchange JSON texts. A parsed JSON text is a \<open>json\<close> value;
  an object is the list of its members in order, one member for a key, as \<^verbatim>\<open>JSON.parse\<close>
  makes it. Numbers are integers here: the handler only ever tests a number for being zero
  and uses it as a property key.
\<close>

datatype json =
    JNull
  | JBool bool
  | JNum int
  | JStr string
  | JArr "json list"
  | JObj "(string \<times> json) list"

text \<open>
  The \<^verbatim>\<open>message\<close> of an \<^verbatim>\<open>Error\<close>. \<open>Text s\<close> is a message written by the program or by
  a provider; the other two are the messages the engine gives a \<^verbatim>\<open>TypeError\<close> and the
  \<^verbatim>\<open>SyntaxError\<close> of \<^verbatim>\<open>JSON.parse\<close>, whose wording depends on the engine.
\<close>

datatype msg = Text string | TypeErrorText | SyntaxErrorText

text \<open>
  What \<^verbatim>\<open>instanceof\<close> can tell about an object: nothing, that it is a
  \<^verbatim>\<open>sequelize.Model\<close> (with its \<^verbatim>\<open>name\<close>), or that it is an instance of
  \<^verbatim>\<open>mongoose.Model\<close> (with its \<^verbatim>\<open>constructor.modelName\<close>).
\<close>

datatype proto = PlainObject | SequelizeModel string | MongooseDoc string

text \<open>
  Run-time values of the server process. An object is its \<open>proto\<close> and the properties
  that it has of its own or from the classes of its provider; a function takes the
  positional arguments of the call (each a JSON value or \<^verbatim>\<open>undefined\<close>); a promise is
  given by how it settles.

  A call throws or returns, and it may change the object it is called on:
  \<open>ChangedReturn r v\<close> is a call that returns \<open>v\<close> and leaves the object it was called on
  as \<open>r\<close>; \<open>ChangedThrow r m\<close> is one that throws after the change.
\<close>

datatype val =
    VUndef
  | VNull
  | VBool bool
  | VNum int
  | VStr string
  | VArr "val list"
  | VObj proto "(string \<times> val) list"
  | VFun "json option list \<Rightarrow> outcome"
  | VPromise settle
and outcome = Throw msg | Return val | ChangedThrow val msg | ChangedReturn val val
and settle = Fulfilled val | Rejected msg | Pending

subsection \<open>What the engine adds\<close>

text \<open>
  Every value of the running program has members that neither this program nor the
  providers define: those of \<^verbatim>\<open>Object.prototype\<close> and of the prototypes of arrays,
  functions, strings, numbers, booleans and promises, and the members of a \<^verbatim>\<open>net.Socket\<close>.
  Which names these are depends on the engine and its libraries, so they are a parameter:
  \<open>engine k name\<close> says that a value of kind \<open>k\<close> has a member called \<open>name\<close> from the
  engine. What such a member is, or does when called, is not modelled. A computation that
  reads one ends as \<open>Beyond\<close>: the model does not say what the program does then.
\<close>

datatype kind =
  OfObject | OfArray | OfFunction | OfString | OfNumber | OfBoolean | OfPromise | OfSocket

type_synonym engine = "kind \<Rightarrow> string \<Rightarrow> bool"

datatype fault = Thrown msg | Beyond

subsection \<open>Property keys\<close>

definition digit_char :: "nat \<Rightarrow> char" where
  "digit_char d = ''0123456789'' ! d"

fun show_nat :: "nat \<Rightarrow> string" where
  "show_nat n = (if n < 10 then [digit_char n] else show_nat (n div 10) @ [digit_char (n mod 10)])"

declare show_nat.simps [simp del]

definition show_int :: "int \<Rightarrow> string" where
  "show_int i = (if i < 0 then CHR ''-'' # show_nat (nat (- i)) else show_nat (nat i))"

fun join_comma :: "string list \<Rightarrow> string" where
  "join_comma [] = []"
| "join_comma [s] = s"
| "join_comma (s # t # ss) = s @ '','' @ join_comma (t # ss)"

text \<open>
  \<^verbatim>\<open>obj[k]\<close> turns \<open>k\<close> into a string first. \<open>None\<close> is \<^verbatim>\<open>undefined\<close>. Inside an array,
  \<^verbatim>\<open>null\<close> is rendered as the empty string.
\<close>

fun json_to_string :: "json \<Rightarrow> string" where
  "json_to_string JNull = ''null''"
| "json_to_string (JBool b) = (if b then ''true'' else ''false'')"
| "json_to_string (JNum i) = show_int i"
| "json_to_string (JStr s) = s"
| "json_to_string (JArr xs) =
     join_comma (map (\<lambda>x. if x = JNull then [] else json_to_string x) xs)"
| "json_to_string (JObj ms) = ''[object Object]''"

definition to_key :: "json option \<Rightarrow> string" where
  "to_key k = (case k of None \<Rightarrow> ''undefined'' | Some j \<Rightarrow> json_to_string j)"

subsection \<open>Truthiness and property lookup\<close>

fun truthy_json :: "json \<Rightarrow> bool" where
  "truthy_json JNull = False"
| "truthy_json (JBool b) = b"
| "truthy_json (JNum i) = (i \<noteq> 0)"
| "truthy_json (JStr s) = (s \<noteq> [])"
| "truthy_json (JArr xs) = True"
| "truthy_json (JObj ms) = True"

fun truthy :: "val \<Rightarrow> bool" where
  "truthy VUndef = False"
| "truthy VNull = False"
| "truthy (VBool b) = b"
| "truthy (VNum i) = (i \<noteq> 0)"
| "truthy (VStr s) = (s \<noteq> [])"
| "truthy (VArr xs) = True"
| "truthy (VObj p ps) = True"
| "truthy (VFun f) = True"
| "truthy (VPromise s) = True"

text \<open>
  \<^verbatim>\<open>data.db\<close>, \<^verbatim>\<open>data.tenant\<close>, ... on the parsed message. Only an object made by
  \<^verbatim>\<open>JSON.parse\<close> can have them of its own; a name that the engine gives every object is
  none of the five that the handler reads, for any engine in use.
\<close>

fun field :: "json \<Rightarrow> string \<Rightarrow> json option" where
  "field (JObj ms) k = map_of ms k"
| "field _ k = None"

text \<open>The element that the key names, when the key is the decimal text of an index in range.\<close>

definition index_of :: "'a list \<Rightarrow> string \<Rightarrow> 'a option" where
  "index_of xs k =
     (case find (\<lambda>i. show_nat i = k) [0..<length xs] of
        None \<Rightarrow> None
      | Some i \<Rightarrow> Some (xs ! i))"

text \<open>
  A property that the value does not have of its own: a member from the engine if the
  engine has one of that name for this kind of value, \<^verbatim>\<open>undefined\<close> otherwise.
\<close>

definition inherited :: "engine \<Rightarrow> kind \<Rightarrow> string \<Rightarrow> fault + val" where
  "inherited E k name = (if E k name then Inl Beyond else Inr VUndef)"

text \<open>\<^verbatim>\<open>xs[k]\<close> on an array: its length, an element, or what the engine adds.\<close>

definition array_prop :: "engine \<Rightarrow> val list \<Rightarrow> string \<Rightarrow> fault + val" where
  "array_prop E xs k =
     (if k = ''length'' then Inr (VNum (int (length xs)))
      else case index_of xs k of
             Some x \<Rightarrow> Inr x
           | None \<Rightarrow> inherited E OfArray k)"

text \<open>
  \<^verbatim>\<open>v[k]\<close>: reading a property of \<^verbatim>\<open>undefined\<close> or \<^verbatim>\<open>null\<close> throws a TypeError; a string has
  its length and its characters; an object has the properties it is given here; all else
  is what the engine adds.
\<close>

fun get_prop :: "engine \<Rightarrow> val \<Rightarrow> string \<Rightarrow> fault + val" where
  "get_prop E VUndef k = Inl (Thrown TypeErrorText)"
| "get_prop E VNull k = Inl (Thrown TypeErrorText)"
| "get_prop E (VBool b) k = inherited E OfBoolean k"
| "get_prop E (VNum i) k = inherited E OfNumber k"
| "get_prop E (VStr s) k =
     (if k = ''length'' then Inr (VNum (int (length s)))
      else case index_of s k of
             Some c \<Rightarrow> Inr (VStr [c])
           | None \<Rightarrow> inherited E OfString k)"
| "get_prop E (VArr xs) k = array_prop E xs k"
| "get_prop E (VObj p ps) k =
     (case map_of ps k of Some v \<Rightarrow> Inr v | None \<Rightarrow> inherited E OfObject k)"
| "get_prop E (VFun f) k = inherited E OfFunction k"
| "get_prop E (VPromise s) k = inherited E OfPromise k"

text \<open>
  \<^verbatim>\<open>f(...args)\<close>: calling what is not a function throws a TypeError. The second component
  is the object the function was called on as the call leaves it, when the call changes it.
\<close>

fun call :: "val \<Rightarrow> json option list \<Rightarrow> (fault + val) \<times> val option" where
  "call (VFun f) args =
     (case f args of
        Throw m \<Rightarrow> (Inl (Thrown m), None)
      | Return v \<Rightarrow> (Inr v, None)
      | ChangedThrow r m \<Rightarrow> (Inl (Thrown m), Some r)
      | ChangedReturn r v \<Rightarrow> (Inr v, Some r))"
| "call _ args = (Inl (Thrown TypeErrorText), None)"

text \<open>
  A call of an operation that only reads its object: \<^verbatim>\<open>get\<close>, \<^verbatim>\<open>toJSON\<close>, and the calls
  of the first branch of the handler. If the function changes its object all the same,
  the model does not follow it.
\<close>

definition call_reading :: "val \<Rightarrow> json option list \<Rightarrow> fault + val" where
  "call_reading g args =
     (case call g args of
        (r, None) \<Rightarrow> r
      | (r, Some changed) \<Rightarrow> Inl Beyond)"

subsection \<open>\<^verbatim>\<open>JSON.stringify\<close>\<close>

text \<open>
  The result of \<^verbatim>\<open>JSON.stringify\<close> is modelled by the JSON value whose text it is:
  \<open>Inl (Thrown e)\<close> when a \<^verbatim>\<open>toJSON\<close> throws, \<open>Inr None\<close> when the result is \<^verbatim>\<open>undefined\<close>.
\<close>

type_synonym ser = "fault + json option"

fun collect_members :: "(string \<times> ser) list \<Rightarrow> fault + (string \<times> json) list" where
  "collect_members [] = Inr []"
| "collect_members ((k, r) # rs) =
     (case r of
        Inl e \<Rightarrow> Inl e
      | Inr None \<Rightarrow> collect_members rs
      | Inr (Some j) \<Rightarrow>
          (case collect_members rs of Inl e \<Rightarrow> Inl e | Inr ms \<Rightarrow> Inr ((k, j) # ms)))"

fun collect_elems :: "ser list \<Rightarrow> fault + json list" where
  "collect_elems [] = Inr []"
| "collect_elems (r # rs) =
     (case r of
        Inl e \<Rightarrow> Inl e
      | Inr jo \<Rightarrow>
          (case collect_elems rs of
             Inl e \<Rightarrow> Inl e
           | Inr js \<Rightarrow> Inr ((case jo of None \<Rightarrow> JNull | Some j \<Rightarrow> j) # js)))"

fun is_fun :: "val option \<Rightarrow> bool" where
  "is_fun (Some (VFun f)) = True"
| "is_fun _ = False"

text \<open>
  For every value three things are computed together: its serialisation as the property
  \<open>key\<close> of a holder (an object with a callable \<^verbatim>\<open>toJSON\<close> is replaced by what that
  returns), its serialisation without that replacement, and, for a function, the
  serialisation of what a call of it returns. A function or \<^verbatim>\<open>undefined\<close> has no text; in
  an array it becomes \<^verbatim>\<open>null\<close>, in an object the member is left out. The text of a promise
  is made of its internal fields and is not modelled; nor is a \<^verbatim>\<open>toJSON\<close> that the engine
  adds, or one that changes its object.
\<close>

primrec ser_val :: "engine \<Rightarrow> val \<Rightarrow> (string \<Rightarrow> ser) \<times> ser \<times> (json option list \<Rightarrow> ser)"
  and ser_outcome :: "engine \<Rightarrow> outcome \<Rightarrow> ser"
where
  "ser_val E VUndef = (\<lambda>key. Inr None, Inr None, \<lambda>args. Inl (Thrown TypeErrorText))"
| "ser_val E VNull =
     (\<lambda>key. Inr (Some JNull), Inr (Some JNull), \<lambda>args. Inl (Thrown TypeErrorText))"
| "ser_val E (VBool b) =
     (\<lambda>key. Inr (Some (JBool b)), Inr (Some (JBool b)), \<lambda>args. Inl (Thrown TypeErrorText))"
| "ser_val E (VNum i) =
     (\<lambda>key. Inr (Some (JNum i)), Inr (Some (JNum i)), \<lambda>args. Inl (Thrown TypeErrorText))"
| "ser_val E (VStr s) =
     (\<lambda>key. Inr (Some (JStr s)), Inr (Some (JStr s)), \<lambda>args. Inl (Thrown TypeErrorText))"
| "ser_val E (VArr xs) =
     (let rs = map (ser_val E) xs;
          raw = (case collect_elems (map (\<lambda>(i, r). fst r (show_nat i)) (zip [0..<length rs] rs)) of
                   Inl e \<Rightarrow> Inl e
                 | Inr js \<Rightarrow> Inr (Some (JArr js)))
      in (\<lambda>key. if E OfArray ''toJSON'' then Inl Beyond else raw, raw,
          \<lambda>args. Inl (Thrown TypeErrorText)))"
| "ser_val E (VObj p ps) =
     (let rs = map (map_prod id (ser_val E)) ps;
          raw = (case collect_members (map (\<lambda>(k, r). (k, fst r k)) rs) of
                   Inl e \<Rightarrow> Inl e
                 | Inr ms \<Rightarrow> Inr (Some (JObj ms)))
      in (\<lambda>key. case map_of rs ''toJSON'' of
                   None \<Rightarrow> if E OfObject ''toJSON'' then Inl Beyond else raw
                 | Some r \<Rightarrow>
                     if is_fun (map_of ps ''toJSON'') then snd (snd r) [Some (JStr key)]
                     else raw,
          raw, \<lambda>args. Inl (Thrown TypeErrorText)))"
| "ser_val E (VFun f) =
     (\<lambda>key. if E OfFunction ''toJSON'' then Inl Beyond else Inr None, Inr None,
      \<lambda>args. ser_outcome E (f args))"
| "ser_val E (VPromise s) = (\<lambda>key. Inl Beyond, Inl Beyond, \<lambda>args. Inl (Thrown TypeErrorText))"
| "ser_outcome E (Throw m) = Inl (Thrown m)"
| "ser_outcome E (Return v) = fst (snd (ser_val E v))"
| "ser_outcome E (ChangedThrow r m) = Inl Beyond"
| "ser_outcome E (ChangedReturn r v) = Inl Beyond"

definition stringify :: "engine \<Rightarrow> val \<Rightarrow> ser" where
  "stringify E v = fst (ser_val E v) []"

section \<open>The connection\<close>

text \<open>
  The handler keeps its state in properties of the socket object. \<open>props\<close> holds the
  properties that this program assigns: each is one of the two provider references, put
  there when the connection is accepted, or an object \<^verbatim>\<open>{data: {...}, dataSets: {...}}\<close>
  made by the handler. An entry of \<^verbatim>\<open>dataSets\<close> is an array object; it is kept by address
  in \<open>heap\<close>, because the handler stores the array and then writes to its elements.
  \<open>destroyed\<close> is set by \<^verbatim>\<open>socket.destroy()\<close>.

  The socket is a \<^verbatim>\<open>net.Socket\<close>, and a property that the program assigns hides the
  member of that name that the socket has from the engine.
\<close>

datatype sval =
    Provider val
  | TenantCache "(string \<times> val) list" "(string \<times> nat) list"

record conn =
  props :: "(string \<times> sval) list"
  heap :: "val list list"
  destroyed :: bool

text \<open>What the handler sends: the text of a JSON value, or of \<^verbatim>\<open>{error: message}\<close>.\<close>

datatype written = Stringified json | ErrorReply msg

text \<open>
  What one inbound message leads to: one \<^verbatim>\<open>socket.write\<close>; a promise that fails with no
  failure handler attached, so that nothing is written; a promise that never settles; or
  an exception that leaves the handler, so that nothing is written either.
\<close>

datatype reaction = Replied written | Unhandled msg | NoReply | Uncaught msg

record server =
  MySql :: val
  Mongo :: val
  socketTimeout :: nat

definition ModelServer :: "val \<Rightarrow> val \<Rightarrow> nat option \<Rightarrow> server" where
  "ModelServer models mongo_database timeout_option =
     \<lparr>MySql = models, Mongo = mongo_database,
      socketTimeout = (case timeout_option of Some n \<Rightarrow> n | None \<Rightarrow> 10000)\<rparr>"

text \<open>The connection handler: the socket gets the two references.\<close>

definition connection :: "server \<Rightarrow> conn" where
  "connection this =
     \<lparr>props = [(''MySql'', Provider (MySql this)), (''Mongo'', Provider (Mongo this))],
      heap = [], destroyed = False\<rparr>"

definition on_timeout :: "conn \<Rightarrow> conn" where
  "on_timeout socket = socket\<lparr>destroyed := True\<rparr>"

text \<open>
  \<^verbatim>\<open>socket.write(text)\<close>. The socket's own \<^verbatim>\<open>write\<close> sends the text. Once the program has
  assigned a property called \<^verbatim>\<open>write\<close>, \<^verbatim>\<open>socket.write\<close> is that object, and calling it
  throws a TypeError.
\<close>

definition socket_write :: "conn \<Rightarrow> written \<Rightarrow> msg + written" where
  "socket_write socket w =
     (case map_of (props socket) ''write'' of None \<Rightarrow> Inr w | Some v \<Rightarrow> Inl TypeErrorText)"

text \<open>\<^verbatim>\<open>sendError(socket, err)\<close>: it has no \<^verbatim>\<open>try\<close>, so what \<^verbatim>\<open>socket.write\<close> throws, it throws.\<close>

definition sendError :: "conn \<Rightarrow> msg \<Rightarrow> msg + written" where
  "sendError socket err = socket_write socket (ErrorReply err)"

text \<open>
  \<^verbatim>\<open>sendError(socket, err); return\<close> in the handler itself, where nothing catches what
  \<^verbatim>\<open>sendError\<close> throws.
\<close>

definition reply_error :: "conn \<Rightarrow> msg \<Rightarrow> reaction" where
  "reply_error socket err =
     (case sendError socket err of Inr w \<Rightarrow> Replied w | Inl thrown \<Rightarrow> Uncaught thrown)"

text \<open>A \<^verbatim>\<open>catch (err)\<close> of the handler, for what the \<^verbatim>\<open>try\<close> ended with.\<close>

definition caught :: "conn \<Rightarrow> fault \<Rightarrow> (conn \<times> reaction) option" where
  "caught socket f =
     (case f of Thrown err \<Rightarrow> Some (socket, reply_error socket err) | Beyond \<Rightarrow> None)"

text \<open>
  \<^verbatim>\<open>socket[k]\<close>: a property that the program has assigned, or else a member that the socket
  has from the engine, or else \<^verbatim>\<open>undefined\<close> (\<open>None\<close>).
\<close>

definition socket_prop :: "engine \<Rightarrow> conn \<Rightarrow> string \<Rightarrow> fault + sval option" where
  "socket_prop E socket k =
     (case map_of (props socket) k of
        Some v \<Rightarrow> Inr (Some v)
      | None \<Rightarrow> if E OfSocket k then Inl Beyond else Inr None)"

section \<open>The server's helpers\<close>

text \<open>\<^verbatim>\<open>toLowerCase\<close> on one character: the letters A to Z are mapped, all else is kept.\<close>

definition to_lower :: "char \<Rightarrow> char" where
  "to_lower c =
     (case map_of (zip ''ABCDEFGHIJKLMNOPQRSTUVWXYZ'' ''abcdefghijklmnopqrstuvwxyz'') c of
        None \<Rightarrow> c
      | Some l \<Rightarrow> l)"

text \<open>
  \<^verbatim>\<open>name[0].toLowerCase() + name.slice(1)\<close>; on the empty name \<^verbatim>\<open>name[0]\<close> is \<^verbatim>\<open>undefined\<close>
  and the call throws.
\<close>

fun lower_first :: "string \<Rightarrow> fault + string" where
  "lower_first [] = Inl (Thrown TypeErrorText)"
| "lower_first (c # cs) = Inr (to_lower c # cs)"

fun sequelize_model_name :: "val \<Rightarrow> string option" where
  "sequelize_model_name (VObj (SequelizeModel name) ps) = Some name"
| "sequelize_model_name _ = None"

fun mongoose_model_name :: "val \<Rightarrow> string option" where
  "mongoose_model_name (VObj (MongooseDoc name) ps) = Some name"
| "mongoose_model_name _ = None"

definition getModelName :: "engine \<Rightarrow> val \<Rightarrow> fault + string" where
  "getModelName E record =
     (case get_prop E record ''Model'' of
        Inl e \<Rightarrow> Inl e
      | Inr m \<Rightarrow>
          (case sequelize_model_name m of
             Some name \<Rightarrow> lower_first name
           | None \<Rightarrow>
               (case mongoose_model_name record of
                  Some name \<Rightarrow> lower_first name
                | None \<Rightarrow> Inr ''raw'')))"

definition getPlainObject :: "engine \<Rightarrow> val \<Rightarrow> json option \<Rightarrow> fault + val" where
  "getPlainObject E record type =
     (if type = Some (JStr ''MySql'') then
        (case get_prop E record ''get'' of
           Inl e \<Rightarrow> Inl e
         | Inr g \<Rightarrow> if truthy g then call_reading g [] else Inr record)
      else if type = Some (JStr ''Mongo'') then
        (case get_prop E record ''toJSON'' of
           Inl e \<Rightarrow> Inl e
         | Inr g \<Rightarrow> if truthy g then call_reading g [] else Inr record)
      else Inr record)"

section \<open>The data handler\<close>

text \<open>
  What a chain of property reads that starts at the socket can reach: a value, the
  \<^verbatim>\<open>data\<close> or the \<^verbatim>\<open>dataSets\<close> object of a tenant, or a stored array.
\<close>

datatype href =
    Val val
  | DataObj "(string \<times> val) list"
  | SetsObj "(string \<times> nat) list"
  | ArrRef nat

definition deref :: "val list list \<Rightarrow> nat \<Rightarrow> val list" where
  "deref h a = (if a < length h then h ! a else [])"

definition as_val :: "fault + val \<Rightarrow> fault + href" where
  "as_val r = (case r of Inl f \<Rightarrow> Inl f | Inr v \<Rightarrow> Inr (Val v))"

text \<open>
  \<^verbatim>\<open>socket[propA][propB]\<close>, given what \<^verbatim>\<open>socket[propA]\<close> is. The object that the handler
  makes for a tenant has \<^verbatim>\<open>data\<close> and \<^verbatim>\<open>dataSets\<close> of its own.
\<close>

fun sval_get :: "engine \<Rightarrow> sval option \<Rightarrow> string \<Rightarrow> fault + href" where
  "sval_get E None k = Inl (Thrown TypeErrorText)"
| "sval_get E (Some (Provider v)) k = as_val (get_prop E v k)"
| "sval_get E (Some (TenantCache d s)) k =
     (if k = ''data'' then Inr (DataObj d)
      else if k = ''dataSets'' then Inr (SetsObj s)
      else as_val (inherited E OfObject k))"

fun href_get :: "engine \<Rightarrow> val list list \<Rightarrow> href \<Rightarrow> string \<Rightarrow> fault + href" where
  "href_get E h (Val v) k = as_val (get_prop E v k)"
| "href_get E h (DataObj d) k =
     (case map_of d k of Some v \<Rightarrow> Inr (Val v) | None \<Rightarrow> as_val (inherited E OfObject k))"
| "href_get E h (SetsObj s) k =
     (case map_of s k of Some a \<Rightarrow> Inr (ArrRef a) | None \<Rightarrow> as_val (inherited E OfObject k))"
| "href_get E h (ArrRef a) k = as_val (array_prop E (deref h a) k)"

fun href_call :: "href \<Rightarrow> json option list \<Rightarrow> (fault + val) \<times> val option" where
  "href_call (Val v) args = call v args"
| "href_call _ args = (Inl (Thrown TypeErrorText), None)"

subsection \<open>Keeping what a call changes\<close>

text \<open>The property of a value that is its own, and the value with that property replaced.\<close>

fun own_prop :: "val \<Rightarrow> string \<Rightarrow> val option" where
  "own_prop (VObj p ps) k = map_of ps k"
| "own_prop (VArr xs) k = index_of xs k"
| "own_prop _ k = None"

fun put_prop :: "val \<Rightarrow> string \<Rightarrow> val \<Rightarrow> val option" where
  "put_prop (VObj p ps) k x =
     (if map_of ps k = None then None else Some (VObj p (AList.update k x ps)))"
| "put_prop (VArr xs) k x =
     (case find (\<lambda>i. show_nat i = k) [0..<length xs] of
        None \<Rightarrow> None
      | Some i \<Rightarrow> Some (VArr (xs[i := x])))"
| "put_prop _ k x = None"

text \<open>
  The method of \<^verbatim>\<open>socket[a][b][m]\<close> has changed that object into \<open>r\<close>: the socket with the
  object replaced where it is kept, in the provider's object, in the tenant's \<^verbatim>\<open>data\<close>,
  or, for a stored array, in the heap. \<open>None\<close> when the model does not keep the object.
\<close>

definition write_back :: "conn \<Rightarrow> string \<Rightarrow> string \<Rightarrow> string \<Rightarrow> val \<Rightarrow> conn option" where
  "write_back socket a b m r =
     (case map_of (props socket) a of
        None \<Rightarrow> None
      | Some (Provider v) \<Rightarrow>
          (case own_prop v b of
             None \<Rightarrow> None
           | Some vb \<Rightarrow>
               (case put_prop vb m r of
                  None \<Rightarrow> None
                | Some vb1 \<Rightarrow>
                    (case put_prop v b vb1 of
                       None \<Rightarrow> None
                     | Some v1 \<Rightarrow>
                         Some (socket\<lparr>props := AList.update a (Provider v1) (props socket)\<rparr>))))
      | Some (TenantCache d s) \<Rightarrow>
          if b = ''data'' then
            (if map_of d m = None then None
             else Some (socket\<lparr>props := AList.update a (TenantCache (AList.update m r d) s)
                                          (props socket)\<rparr>))
          else if b = ''dataSets'' then
            (case map_of s m of
               None \<Rightarrow> None
             | Some addr \<Rightarrow>
                 (case r of
                    VArr ys \<Rightarrow> Some (socket\<lparr>heap := (heap socket)[addr := ys]\<rparr>)
                  | _ \<Rightarrow> None))
          else None)"

subsection \<open>\<^verbatim>\<open>resolved\<close>\<close>

text \<open>
  \<^verbatim>\<open>record.forEach((element, index) => { record[index] = this._getPlainObject(element, db) })\<close>:
  the elements before the current one are already replaced. The result is the array's
  content when the loop ends, and how it ended if not by reaching the last element.
\<close>

fun forEach_plain ::
  "engine \<Rightarrow> json option \<Rightarrow> val list \<Rightarrow> val list \<Rightarrow> val list \<times> fault option" where
  "forEach_plain E db done [] = (done, None)"
| "forEach_plain E db done (x # xs) =
     (case getPlainObject E x db of
        Inl e \<Rightarrow> (done @ x # xs, Some e)
      | Inr y \<Rightarrow> forEach_plain E db (done @ [y]) xs)"

text \<open>\<^verbatim>\<open>sendError\<close> inside \<^verbatim>\<open>resolved\<close>: what it throws, \<^verbatim>\<open>resolved\<close> throws.\<close>

definition send_caught :: "conn \<Rightarrow> msg \<Rightarrow> fault + written" where
  "send_caught socket err =
     (case sendError socket err of Inl thrown \<Rightarrow> Inl (Thrown thrown) | Inr w \<Rightarrow> Inr w)"

text \<open>
  \<^verbatim>\<open>try { socket.write(JSON.stringify(record)) } catch (err) { sendError(socket, err) }\<close>:
  \<^verbatim>\<open>socket.write(undefined)\<close> throws a TypeError.
\<close>

definition write_record :: "engine \<Rightarrow> conn \<Rightarrow> val \<Rightarrow> fault + written" where
  "write_record E socket record =
     (case stringify E record of
        Inl Beyond \<Rightarrow> Inl Beyond
      | Inl (Thrown e) \<Rightarrow> send_caught socket e
      | Inr None \<Rightarrow> send_caught socket TypeErrorText
      | Inr (Some j) \<Rightarrow>
          (case socket_write socket (Stringified j) of
             Inr w \<Rightarrow> Inr w
           | Inl e \<Rightarrow> send_caught socket e))"

definition is_direct :: "json option \<Rightarrow> bool" where
  "is_direct db = (db \<noteq> Some (JStr ''data'') \<and> db \<noteq> Some (JStr ''dataSets''))"

text \<open>
  \<^verbatim>\<open>socket[tenant].dataSets[name] = record\<close> for an array: the array object gets the next
  free address and the entry holds that address. The handler has made \<^verbatim>\<open>socket[tenant]\<close>
  when it comes here; an assignment into anything else is not modelled.
\<close>

definition store_set :: "conn \<Rightarrow> string \<Rightarrow> string \<Rightarrow> val list \<Rightarrow> fault + conn \<times> nat" where
  "store_set socket tenant name xs =
     (case map_of (props socket) tenant of
        Some (TenantCache d s) \<Rightarrow>
          (let a = length (heap socket)
           in Inr (socket\<lparr>props := AList.update tenant (TenantCache d (AList.update name a s)) (props socket),
                           heap := heap socket @ [xs]\<rparr>, a))
      | _ \<Rightarrow> Inl Beyond)"

text \<open>\<^verbatim>\<open>socket[tenant].data[name] = record\<close>.\<close>

definition store_single :: "conn \<Rightarrow> string \<Rightarrow> string \<Rightarrow> val \<Rightarrow> fault + conn" where
  "store_single socket tenant name record =
     (case map_of (props socket) tenant of
        Some (TenantCache d s) \<Rightarrow>
          Inr (socket\<lparr>props := AList.update tenant (TenantCache (AList.update name record d) s) (props socket)\<rparr>)
      | _ \<Rightarrow> Inl Beyond)"

text \<open>
  \<^verbatim>\<open>resolved(record)\<close>, for the \<open>db\<close> and \<open>tenant\<close> of the message being handled. The result
  is the socket when the function ends and either how it failed or what it wrote.
\<close>

definition resolved_array ::
  "engine \<Rightarrow> json option \<Rightarrow> string \<Rightarrow> conn \<Rightarrow> val list \<Rightarrow> conn \<times> (fault + written)" where
  "resolved_array E db tenant socket xs =
     (if is_direct db then
        (case array_prop E xs ''0'' of
           Inl e \<Rightarrow> (socket, Inl e)
         | Inr x \<Rightarrow>
        (case getModelName E x of
           Inl e \<Rightarrow> (socket, Inl e)
         | Inr name \<Rightarrow>
             (case store_set socket tenant name xs of
                Inl e \<Rightarrow> (socket, Inl e)
              | Inr (socket1, a) \<Rightarrow>
                  (case forEach_plain E db [] (deref (heap socket1) a) of
                     (ys, thrown) \<Rightarrow>
                       (let socket2 = socket1\<lparr>heap := (heap socket1)[a := ys]\<rparr>
                        in case thrown of
                             Some e \<Rightarrow> (socket2, Inl e)
                           | None \<Rightarrow>
                               (socket2, write_record E socket2 (VArr (deref (heap socket2) a))))))))
      else
        (case forEach_plain E db [] xs of
           (ys, thrown) \<Rightarrow>
             (case thrown of
                Some e \<Rightarrow> (socket, Inl e)
              | None \<Rightarrow> (socket, write_record E socket (VArr ys)))))"

definition resolved_single ::
  "engine \<Rightarrow> json option \<Rightarrow> string \<Rightarrow> conn \<Rightarrow> val \<Rightarrow> conn \<times> (fault + written)" where
  "resolved_single E db tenant socket record =
     (if is_direct db then
        (case getModelName E record of
           Inl e \<Rightarrow> (socket, Inl e)
         | Inr name \<Rightarrow>
             (case store_single socket tenant name record of
                Inl e \<Rightarrow> (socket, Inl e)
              | Inr socket1 \<Rightarrow>
                  (case getPlainObject E record db of
                     Inl e \<Rightarrow> (socket1, Inl e)
                   | Inr plain \<Rightarrow> (socket1, write_record E socket1 plain))))
      else
        (case getPlainObject E record db of
           Inl e \<Rightarrow> (socket, Inl e)
         | Inr plain \<Rightarrow> (socket, write_record E socket plain)))"

fun resolved ::
  "engine \<Rightarrow> json option \<Rightarrow> string \<Rightarrow> conn \<Rightarrow> val \<Rightarrow> conn \<times> (fault + written)" where
  "resolved E db tenant socket VUndef = resolved_single E db tenant socket VNull"
| "resolved E db tenant socket (VArr xs) = resolved_array E db tenant socket xs"
| "resolved E db tenant socket record = resolved_single E db tenant socket record"

subsection \<open>Dispatch\<close>

text \<open>\<^verbatim>\<open>if (!Array.isArray(params)) params = [params]\<close>\<close>

definition arguments :: "json option \<Rightarrow> json option list" where
  "arguments params = (case params of Some (JArr xs) \<Rightarrow> map Some xs | _ \<Rightarrow> [params])"

text \<open>
  \<^verbatim>\<open>socket[tenant] = {data: {}, dataSets: {}}\<close> for \<^verbatim>\<open>MySql\<close> and \<^verbatim>\<open>Mongo\<close>: the state in
  which the handler invokes. The assignment replaces a property the program has assigned
  before, or makes a new one. A new one called \<^verbatim>\<open>write\<close> hides the socket's method of that
  name. For any other name that the socket has from the engine the model does not follow
  the program: the member may be one that cannot be assigned, or one that the socket's
  own working needs.
\<close>

definition at_dispatch :: "engine \<Rightarrow> conn \<Rightarrow> json option \<Rightarrow> json option \<Rightarrow> conn option" where
  "at_dispatch E socket db tenant =
     (if is_direct db then
        (if map_of (props socket) (to_key tenant) = None \<and> E OfSocket (to_key tenant)
            \<and> to_key tenant \<noteq> ''write''
         then None
         else Some (socket\<lparr>props := AList.update (to_key tenant) (TenantCache [] []) (props socket)\<rparr>))
      else Some socket)"

text \<open>
  \<^verbatim>\<open>promise.then(resolved.bind(this))\<close> on a promise. Only a success callback is attached:
  what the promise fails with, and what \<^verbatim>\<open>resolved\<close> throws inside the callback, reaches no
  handler.
\<close>

fun then_resolved ::
  "engine \<Rightarrow> json option \<Rightarrow> string \<Rightarrow> conn \<Rightarrow> settle \<Rightarrow> (conn \<times> reaction) option" where
  "then_resolved E db tenant socket (Fulfilled v) =
     (case resolved E db tenant socket v of
        (socket1, Inl (Thrown e)) \<Rightarrow> Some (socket1, Unhandled e)
      | (socket1, Inl Beyond) \<Rightarrow> None
      | (socket1, Inr w) \<Rightarrow> Some (socket1, Replied w))"
| "then_resolved E db tenant socket (Rejected e) = Some (socket, Unhandled e)"
| "then_resolved E db tenant socket Pending = Some (socket, NoReply)"

text \<open>
  \<^verbatim>\<open>x.then(resolved.bind(this))\<close> on any value: \<open>Inl (Thrown e)\<close> when the expression throws.
  A \<^verbatim>\<open>then\<close> that is a function of a value that is not a promise would be called with
  the callback, which is not a JSON value: the model does not follow it.
\<close>

fun call_then ::
  "engine \<Rightarrow> json option \<Rightarrow> string \<Rightarrow> conn \<Rightarrow> val \<Rightarrow> fault + conn \<times> reaction" where
  "call_then E db tenant socket (VPromise s) =
     (case then_resolved E db tenant socket s of None \<Rightarrow> Inl Beyond | Some r \<Rightarrow> Inr r)"
| "call_then E db tenant socket v =
     (case get_prop E v ''then'' of
        Inl e \<Rightarrow> Inl e
      | Inr t \<Rightarrow> if is_fun (Some t) then Inl Beyond else Inl (Thrown TypeErrorText))"

text \<open>\<^verbatim>\<open>resolved.bind(this)(promise)\<close> inside the \<^verbatim>\<open>try\<close> of the second branch.\<close>

definition resolved_now ::
  "engine \<Rightarrow> json option \<Rightarrow> string \<Rightarrow> conn \<Rightarrow> val \<Rightarrow> (conn \<times> reaction) option" where
  "resolved_now E db tenant socket record =
     (case resolved E db tenant socket record of
        (socket1, Inl e) \<Rightarrow> caught socket1 e
      | (socket1, Inr w) \<Rightarrow> Some (socket1, Replied w))"

text \<open>\<^verbatim>\<open>promise.then(...)\<close> inside the \<^verbatim>\<open>try\<close>.\<close>

definition then_in_try ::
  "engine \<Rightarrow> json option \<Rightarrow> string \<Rightarrow> conn \<Rightarrow> val \<Rightarrow> (conn \<times> reaction) option" where
  "then_in_try E db tenant socket promise =
     (case call_then E db tenant socket promise of
        Inl e \<Rightarrow> caught socket e
      | Inr r \<Rightarrow> Some r)"

text \<open>
  \<^verbatim>\<open>if (typeof promise === 'object' && promise.then) promise.then(...) else resolved(promise)\<close>,
  inside the \<^verbatim>\<open>try\<close>. \<^verbatim>\<open>typeof null\<close> is \<^verbatim>\<open>'object'\<close>, and \<^verbatim>\<open>null.then\<close> throws. A
  promise has a \<^verbatim>\<open>then\<close>.
\<close>

fun settle_result ::
  "engine \<Rightarrow> json option \<Rightarrow> string \<Rightarrow> conn \<Rightarrow> val \<Rightarrow> (conn \<times> reaction) option" where
  "settle_result E db tenant socket VNull = caught socket (Thrown TypeErrorText)"
| "settle_result E db tenant socket (VPromise s) = then_resolved E db tenant socket s"
| "settle_result E db tenant socket (VObj p ps) =
     (case get_prop E (VObj p ps) ''then'' of
        Inl e \<Rightarrow> caught socket e
      | Inr t \<Rightarrow>
          if truthy t then then_in_try E db tenant socket (VObj p ps)
          else resolved_now E db tenant socket (VObj p ps))"
| "settle_result E db tenant socket (VArr xs) =
     (case get_prop E (VArr xs) ''then'' of
        Inl e \<Rightarrow> caught socket e
      | Inr t \<Rightarrow>
          if truthy t then then_in_try E db tenant socket (VArr xs)
          else resolved_now E db tenant socket (VArr xs))"
| "settle_result E db tenant socket record = resolved_now E db tenant socket record"

text \<open>
  The invocation of the first branch, \<^verbatim>\<open>socket[db][tenant].model(model)[method](...params)\<close>:
  \<open>Inl (Thrown e)\<close> when a property read or a call throws. The two calls are taken to
  read their objects only.
\<close>

definition invoke_mongo ::
  "engine \<Rightarrow> conn \<Rightarrow> json option \<Rightarrow> json option \<Rightarrow> json option \<Rightarrow> json option
     \<Rightarrow> json option list \<Rightarrow> fault + val" where
  "invoke_mongo E socket db tenant model method params =
     (case socket_prop E socket (to_key db) of
        Inl e \<Rightarrow> Inl e
      | Inr sv \<Rightarrow>
     (case sval_get E sv (to_key tenant) of
        Inl e \<Rightarrow> Inl e
      | Inr t \<Rightarrow>
     (case href_get E (heap socket) t ''model'' of
        Inl e \<Rightarrow> Inl e
      | Inr f \<Rightarrow>
     (case (case href_call f [model] of (r, None) \<Rightarrow> r | (r, Some changed) \<Rightarrow> Inl Beyond) of
        Inl e \<Rightarrow> Inl e
      | Inr m \<Rightarrow>
     (case get_prop E m (to_key method) of
        Inl e \<Rightarrow> Inl e
      | Inr g \<Rightarrow> call_reading g params)))))"

text \<open>The first branch: the invocation, then \<^verbatim>\<open>.then(resolved.bind(this))\<close>, in one \<^verbatim>\<open>try\<close>.\<close>

definition mongo_branch ::
  "engine \<Rightarrow> conn \<Rightarrow> json option \<Rightarrow> json option \<Rightarrow> json option \<Rightarrow> json option
     \<Rightarrow> json option list \<Rightarrow> (conn \<times> reaction) option" where
  "mongo_branch E socket db tenant model method params =
     (case invoke_mongo E socket db tenant model method params of
        Inl e \<Rightarrow> caught socket e
      | Inr promise \<Rightarrow> then_in_try E db (to_key tenant) socket promise)"

text \<open>
  The invocation of the second branch, \<^verbatim>\<open>socket[propA][propB][model][method](...params)\<close>;
  for \<^verbatim>\<open>data\<close> and \<^verbatim>\<open>dataSets\<close> the two first properties are read in the other order.
  The result comes with the socket as the call leaves it: the method is called on
  \<^verbatim>\<open>socket[propA][propB][model]\<close>, and what it changes there is kept.
\<close>

definition invoke_other ::
  "engine \<Rightarrow> conn \<Rightarrow> json option \<Rightarrow> json option \<Rightarrow> json option \<Rightarrow> json option
     \<Rightarrow> json option list \<Rightarrow> (fault + val) \<times> conn" where
  "invoke_other E socket db tenant model method params =
     (let propA = (if is_direct db then db else tenant);
          propB = (if is_direct db then tenant else db)
      in
     (case socket_prop E socket (to_key propA) of
        Inl e \<Rightarrow> (Inl e, socket)
      | Inr sv \<Rightarrow>
     (case sval_get E sv (to_key propB) of
        Inl e \<Rightarrow> (Inl e, socket)
      | Inr t \<Rightarrow>
     (case href_get E (heap socket) t (to_key model) of
        Inl e \<Rightarrow> (Inl e, socket)
      | Inr m \<Rightarrow>
     (case href_get E (heap socket) m (to_key method) of
        Inl e \<Rightarrow> (Inl e, socket)
      | Inr g \<Rightarrow>
     (case href_call g params of
        (r, None) \<Rightarrow> (r, socket)
      | (r, Some changed) \<Rightarrow>
          (case write_back socket (to_key propA) (to_key propB) (to_key model) changed of
             None \<Rightarrow> (Inl Beyond, socket)
           | Some socket1 \<Rightarrow> (r, socket1))))))))"

definition other_branch ::
  "engine \<Rightarrow> conn \<Rightarrow> json option \<Rightarrow> json option \<Rightarrow> json option \<Rightarrow> json option
     \<Rightarrow> json option list \<Rightarrow> (conn \<times> reaction) option" where
  "other_branch E socket db tenant model method params =
     (case invoke_other E socket db tenant model method params of
        (Inl e, socket1) \<Rightarrow> caught socket1 e
      | (Inr promise, socket1) \<Rightarrow> settle_result E db (to_key tenant) socket1 promise)"

text \<open>
  The handler of the socket's \<^verbatim>\<open>'data'\<close> event. \<open>parse\<close> is \<^verbatim>\<open>JSON.parse\<close>: \<open>Inl e\<close> when it
  throws. The result is the socket afterwards and what the message led to; it is \<open>None\<close>
  when the program has read a member that the engine adds, and the model does not say
  what it does.
\<close>

definition on_data ::
  "engine \<Rightarrow> (string \<Rightarrow> msg + json) \<Rightarrow> conn \<Rightarrow> string \<Rightarrow> (conn \<times> reaction) option" where
  "on_data E parse socket text =
     (case parse text of
        Inl err \<Rightarrow> Some (socket, reply_error socket err)
      | Inr data \<Rightarrow>
          if \<not> truthy_json data then
            Some (socket, reply_error socket (Text ''Signature does not match.''))
          else
            (let db = field data ''db'';
                 tenant = field data ''tenant'';
                 model = field data ''model'';
                 method = field data ''method'';
                 params = arguments (field data ''params'')
             in
               if is_direct db \<and> db \<noteq> Some (JStr ''MySql'') \<and> db \<noteq> Some (JStr ''Mongo'') then
                 Some (socket, reply_error socket (Text ''Signature does not match.''))
               else
                 (case at_dispatch E socket db tenant of
                    None \<Rightarrow> None
                  | Some socket1 \<Rightarrow>
                      if db = Some (JStr ''Mongo'') then
                        mongo_branch E socket1 db tenant model method params
                      else other_branch E socket1 db tenant model method params)))"

text \<open>The messages of one connection, handled one after the other.\<close>

fun serve ::
  "engine \<Rightarrow> (string \<Rightarrow> msg + json) \<Rightarrow> conn \<Rightarrow> string list \<Rightarrow> (conn \<times> reaction list) option" where
  "serve E parse socket [] = Some (socket, [])"
| "serve E parse socket (text # texts) =
     (case on_data E parse socket text of
        None \<Rightarrow> None
      | Some (socket1, r) \<Rightarrow>
          (case serve E parse socket1 texts of
             None \<Rightarrow> None
           | Some (socket2, rs) \<Rightarrow> Some (socket2, r # rs)))"

section \<open>The client\<close>

text \<open>
  \<^verbatim>\<open>ModelClient.prototype._write\<close>. Its argument is the text made by \<^verbatim>\<open>mergeOptions\<close>, or
  the error that \<^verbatim>\<open>JSON.stringify\<close> threw there. \<open>flushed\<close> is what \<^verbatim>\<open>socket.write\<close>
  returns; \<open>next_event\<close> is the first \<^verbatim>\<open>'error'\<close> or \<^verbatim>\<open>'data'\<close> event of the socket after
  the call, if there is one.
\<close>

datatype socket_event = DataEvent string | ErrorEvent msg

datatype pending = Completed json | Failed msg | Waiting

definition ModelClient_write ::
  "(string \<Rightarrow> msg + json) \<Rightarrow> msg + string \<Rightarrow> bool \<Rightarrow> socket_event option \<Rightarrow> pending" where
  "ModelClient_write parse data flushed next_event =
     (case data of
        Inl err \<Rightarrow> Failed err
      | Inr text \<Rightarrow>
          if \<not> flushed then Failed (Text ''Waiting for 'drain' event.'')
          else
            (case next_event of
               None \<Rightarrow> Waiting
             | Some (ErrorEvent err) \<Rightarrow> Failed err
             | Some (DataEvent received) \<Rightarrow>
                 (case parse received of Inl err \<Rightarrow> Failed err | Inr payload \<Rightarrow> Completed payload)))"

section \<open>Properties of the socket's state\<close>

text \<open>The tenant's property is a cache object, and it holds at most one entry in all.\<close>

definition holds_at_most_one :: "conn \<Rightarrow> string \<Rightarrow> bool" where
  "holds_at_most_one socket tenant =
     (case map_of (props socket) tenant of
        Some (TenantCache d s) \<Rightarrow> length d + length s \<le> 1
      | _ \<Rightarrow> False)"



text \<open>
  The invocation of whichever branch the handler takes for \<open>db\<close>, with the socket as the
  invocation leaves it.
\<close>

definition invoke ::
  "engine \<Rightarrow> conn \<Rightarrow> json option \<Rightarrow> json option \<Rightarrow> json option \<Rightarrow> json option
     \<Rightarrow> json option list \<Rightarrow> (fault + val) \<times> conn" where
  "invoke E socket db tenant model method params =
     (if db = Some (JStr ''Mongo'') then
        (invoke_mongo E socket db tenant model method params, socket)
      else invoke_other E socket db tenant model method params)"

text \<open>A property of the socket is a cache object made by the handler.\<close>

fun is_cache :: "sval option \<Rightarrow> bool" where
  "is_cache (Some (TenantCache d s)) = True"
| "is_cache _ = False"



section \<open>A sample engine\<close>

text \<open>
  Names that Node's objects have from the engine: those of \<^verbatim>\<open>Object.prototype\<close>, which
  every kind of value has, and some of those of arrays, functions, strings, numbers,
  promises and sockets.
\<close>

definition object_names :: "string list" where
  "object_names =
     [''constructor'', ''__proto__'', ''hasOwnProperty'', ''isPrototypeOf'',
      ''propertyIsEnumerable'', ''toLocaleString'', ''toString'', ''valueOf'',
      ''__defineGetter__'', ''__defineSetter__'', ''__lookupGetter__'', ''__lookupSetter__'']"

definition kind_names :: "kind \<Rightarrow> string list" where
  "kind_names k =
     (case k of
        OfObject \<Rightarrow> []
      | OfArray \<Rightarrow>
          [''concat'', ''every'', ''filter'', ''find'', ''forEach'', ''indexOf'', ''join'', ''keys'',
           ''map'', ''pop'', ''push'', ''reduce'', ''reverse'', ''shift'', ''slice'', ''some'',
           ''sort'', ''splice'', ''unshift'']
      | OfFunction \<Rightarrow> [''apply'', ''bind'', ''call'', ''length'', ''name'', ''prototype'']
      | OfString \<Rightarrow>
          [''charAt'', ''concat'', ''indexOf'', ''slice'', ''split'', ''substring'',
           ''toLowerCase'', ''toUpperCase'', ''trim'']
      | OfNumber \<Rightarrow> [''toFixed'', ''toPrecision'']
      | OfBoolean \<Rightarrow> []
      | OfPromise \<Rightarrow> [''then'', ''catch'', ''finally'']
      | OfSocket \<Rightarrow>
          [''write'', ''end'', ''destroy'', ''on'', ''once'', ''emit'', ''pipe'', ''connect'',
           ''setTimeout'', ''setEncoding'', ''address'', ''readable'', ''writable'',
           ''destroyed'', ''bytesWritten'', ''_events'', ''_handle''])"

definition node_engine :: engine where
  "node_engine k name = (name \<in> set object_names \<or> name \<in> set (kind_names k))"

section \<open>A sample deployment\<close>

text \<open>
  A relational provider with one tenant \<^verbatim>\<open>t1\<close> and one model \<^verbatim>\<open>Student\<close>, whose methods
  return promises, as the provider's do; a student instance with its extraction method
  \<^verbatim>\<open>get\<close> and two instance methods; and the message texts of some requests.
\<close>

definition student_plain :: val where
  "student_plain = VObj PlainObject [(''id'', VNum 5), (''name'', VStr ''Ann'')]"

definition parent_plain :: val where
  "parent_plain = VObj PlainObject [(''id'', VNum 7), (''name'', VStr ''Bo'')]"

text \<open>The student after \<^verbatim>\<open>setDataValue\<close> has changed its name.\<close>

definition student_renamed :: val where
  "student_renamed =
     VObj PlainObject
       [(''Model'', VObj (SequelizeModel ''Student'') []),
        (''id'', VNum 5),
        (''get'', VFun (\<lambda>args. Return (VObj PlainObject [(''id'', VNum 5), (''name'', VStr ''Bea'')])))]"

definition student :: val where
  "student =
     VObj PlainObject
       [(''Model'', VObj (SequelizeModel ''Student'') []),
        (''id'', VNum 5),
        (''get'', VFun (\<lambda>args. Return student_plain)),
        (''getParents'', VFun (\<lambda>args. Return (VPromise (Fulfilled (VArr [parent_plain]))))),
        (''getDataValue'', VFun (\<lambda>args. Return VNull)),
        (''setDataValue'', VFun (\<lambda>args. ChangedReturn student_renamed VUndef))]"

definition Student :: val where
  "Student =
     VObj (SequelizeModel ''Student'')
       [(''findById'', VFun (\<lambda>args. Return (VPromise (Fulfilled student)))),
        (''findAll'', VFun (\<lambda>args. Return (VPromise (Fulfilled (VArr [student]))))),
        (''sync'', VFun (\<lambda>args. Return (VPromise (Fulfilled VUndef)))),
        (''count'', VFun (\<lambda>args. Return (VPromise (Rejected (Text ''connection lost'')))))]"

definition models :: val where
  "models = VObj PlainObject [(''t1'', VObj PlainObject [(''Student'', Student)])]"

definition mongo_database :: val where
  "mongo_database = VObj PlainObject []"

definition sample_server :: server where
  "sample_server = ModelServer models mongo_database None"

definition find_text :: string where
  "find_text = ''{\"db\":\"MySql\",\"tenant\":\"t1\",\"model\":\"Student\",\"method\":\"findById\",\"params\":[5]}''"

definition find_request :: json where
  "find_request =
     JObj [(''db'', JStr ''MySql''), (''tenant'', JStr ''t1''), (''model'', JStr ''Student''),
           (''method'', JStr ''findById''), (''params'', JArr [JNum 5])]"

definition parents_text :: string where
  "parents_text = ''{\"db\":\"data\",\"tenant\":\"t1\",\"model\":\"student\",\"method\":\"getParents\",\"params\":[]}''"

definition parents_request :: json where
  "parents_request =
     JObj [(''db'', JStr ''data''), (''tenant'', JStr ''t1''), (''model'', JStr ''student''),
           (''method'', JStr ''getParents''), (''params'', JArr [])]"

definition getDataValue_text :: string where
  "getDataValue_text = ''{\"db\":\"data\",\"tenant\":\"t1\",\"model\":\"student\",\"method\":\"getDataValue\",\"params\":[\"nickname\"]}''"

definition getDataValue_request :: json where
  "getDataValue_request =
     JObj [(''db'', JStr ''data''), (''tenant'', JStr ''t1''), (''model'', JStr ''student''),
           (''method'', JStr ''getDataValue''), (''params'', JArr [JStr ''nickname''])]"

definition count_text :: string where
  "count_text = ''{\"db\":\"MySql\",\"tenant\":\"t1\",\"model\":\"Student\",\"method\":\"count\",\"params\":[]}''"

definition count_request :: json where
  "count_request =
     JObj [(''db'', JStr ''MySql''), (''tenant'', JStr ''t1''), (''model'', JStr ''Student''),
           (''method'', JStr ''count''), (''params'', JArr [])]"

definition sync_text :: string where
  "sync_text = ''{\"db\":\"MySql\",\"tenant\":\"t1\",\"model\":\"Student\",\"method\":\"sync\",\"params\":[]}''"

definition sync_request :: json where
  "sync_request =
     JObj [(''db'', JStr ''MySql''), (''tenant'', JStr ''t1''), (''model'', JStr ''Student''),
           (''method'', JStr ''sync''), (''params'', JArr [])]"

definition no_model_text :: string where
  "no_model_text = ''{\"db\":\"MySql\",\"tenant\":\"t1\",\"method\":\"findById\",\"params\":[5]}''"

definition no_model_request :: json where
  "no_model_request =
     JObj [(''db'', JStr ''MySql''), (''tenant'', JStr ''t1''),
           (''method'', JStr ''findById''), (''params'', JArr [JNum 5])]"

definition sql_text :: string where
  "sql_text = ''{\"db\":\"Sql\",\"tenant\":\"t1\",\"model\":\"Student\",\"method\":\"findById\",\"params\":[5]}''"

definition sql_request :: json where
  "sql_request =
     JObj [(''db'', JStr ''Sql''), (''tenant'', JStr ''t1''), (''model'', JStr ''Student''),
           (''method'', JStr ''findById''), (''params'', JArr [JNum 5])]"

text \<open>A relational provider one of whose tenants is called \<^verbatim>\<open>data\<close>.\<close>

definition models_with_data :: val where
  "models_with_data =
     VObj PlainObject
       [(''data'',
         VObj PlainObject
           [(''Student'', VObj (SequelizeModel ''Student'') [(''count'', VFun (\<lambda>args. Return (VNum 3)))])])]"

definition data_server :: server where
  "data_server = ModelServer models_with_data mongo_database None"

definition data_count_text :: string where
  "data_count_text = ''{\"db\":\"data\",\"tenant\":\"MySql\",\"model\":\"Student\",\"method\":\"count\",\"params\":[]}''"

definition data_count_request :: json where
  "data_count_request =
     JObj [(''db'', JStr ''data''), (''tenant'', JStr ''MySql''), (''model'', JStr ''Student''),
           (''method'', JStr ''count''), (''params'', JArr [])]"

definition own_name_text :: string where
  "own_name_text = ''{\"db\":\"MySql\",\"tenant\":\"MySql\",\"model\":\"Student\",\"method\":\"findById\",\"params\":[5]}''"

definition own_name_request :: json where
  "own_name_request =
     JObj [(''db'', JStr ''MySql''), (''tenant'', JStr ''MySql''), (''model'', JStr ''Student''),
           (''method'', JStr ''findById''), (''params'', JArr [JNum 5])]"

text \<open>A request whose tenant is called like the socket's method \<^verbatim>\<open>write\<close>.\<close>

definition write_tenant_text :: string where
  "write_tenant_text = ''{\"db\":\"MySql\",\"tenant\":\"write\",\"model\":\"Student\",\"method\":\"findById\",\"params\":[5]}''"

definition write_tenant_request :: json where
  "write_tenant_request =
     JObj [(''db'', JStr ''MySql''), (''tenant'', JStr ''write''), (''model'', JStr ''Student''),
           (''method'', JStr ''findById''), (''params'', JArr [JNum 5])]"

definition set_text :: string where
  "set_text = ''{\"db\":\"data\",\"tenant\":\"t1\",\"model\":\"student\",\"method\":\"setDataValue\",\"params\":[\"name\",\"Bea\"]}''"

definition set_request :: json where
  "set_request =
     JObj [(''db'', JStr ''data''), (''tenant'', JStr ''t1''), (''model'', JStr ''student''),
           (''method'', JStr ''setDataValue''), (''params'', JArr [JStr ''name'', JStr ''Bea''])]"

definition error_text :: string where
  "error_text = ''{\"error\":\"Signature does not match.\"}''"

definition error_payload :: json where
  "error_payload = JObj [(''error'', JStr ''Signature does not match.'')]"


text \<open>\<^verbatim>\<open>JSON.parse\<close> on the sample texts; any other text here is not JSON.\<close>

definition parse_sample :: "string \<Rightarrow> msg + json" where
  "parse_sample text =
     (if text = find_text then Inr find_request
      else if text = parents_text then Inr parents_request
      else if text = getDataValue_text then Inr getDataValue_request
      else if text = count_text then Inr count_request
      else if text = sync_text then Inr sync_request
      else if text = no_model_text then Inr no_model_request
      else if text = sql_text then Inr sql_request
      else if text = error_text then Inr error_payload
      else if text = data_count_text then Inr data_count_request
      else if text = own_name_text then Inr own_name_request
      else if text = write_tenant_text then Inr write_tenant_request
      else if text = set_text then Inr set_request
      else Inl SyntaxErrorText)"

section \<open>Evaluating the sample\<close>

lemma parse_sample_find: "parse_sample find_text = Inr find_request"
  by (simp add: parse_sample_def)


lemma parse_sample_getDataValue: "parse_sample getDataValue_text = Inr getDataValue_request"
  by (simp add: parse_sample_def find_text_def parents_text_def getDataValue_text_def)

lemma parse_sample_count: "parse_sample count_text = Inr count_request"
  by (simp add: parse_sample_def find_text_def parents_text_def getDataValue_text_def count_text_def)

lemma parse_sample_sync: "parse_sample sync_text = Inr sync_request"
  by (simp add: parse_sample_def find_text_def parents_text_def getDataValue_text_def count_text_def
      sync_text_def)



lemma parse_sample_error: "parse_sample error_text = Inr error_payload"
  by (simp add: parse_sample_def find_text_def parents_text_def getDataValue_text_def count_text_def
      sync_text_def no_model_text_def sql_text_def error_text_def)


lemma parse_sample_own_name: "parse_sample own_name_text = Inr own_name_request"
  by (simp add: parse_sample_def find_text_def parents_text_def getDataValue_text_def count_text_def
      sync_text_def no_model_text_def sql_text_def error_text_def data_count_text_def
      own_name_text_def)


lemma parse_sample_set: "parse_sample set_text = Inr set_request"
  by (simp add: parse_sample_def find_text_def parents_text_def getDataValue_text_def count_text_def
      sync_text_def no_model_text_def sql_text_def error_text_def data_count_text_def
      own_name_text_def write_tenant_text_def set_text_def)



lemmas handler_defs =
  on_data_def at_dispatch_def other_branch_def invoke_other_def mongo_branch_def invoke_mongo_def
  then_in_try_def caught_def reply_error_def sendError_def send_caught_def socket_write_def
  socket_prop_def inherited_def as_val_def call_reading_def
  is_direct_def to_key_def arguments_def resolved_now_def resolved_single_def resolved_array_def
  getModelName_def getPlainObject_def store_single_def store_set_def write_record_def
  stringify_def to_lower_def deref_def array_prop_def index_of_def Let_def

lemmas engine_defs = node_engine_def object_names_def kind_names_def

lemmas sample_defs =
  connection_def sample_server_def ModelServer_def models_def mongo_database_def Student_def
  student_def student_plain_def parent_plain_def
  find_request_def parents_request_def getDataValue_request_def count_request_def
  sync_request_def no_model_request_def sql_request_def error_payload_def
  models_with_data_def data_server_def data_count_request_def own_name_request_def
  write_tenant_request_def set_request_def

lemma sample_find:
  "on_data node_engine parse_sample (connection sample_server) find_text =
     Some ((connection sample_server)
        \<lparr>props := [(''MySql'', Provider models), (''Mongo'', Provider mongo_database),
                   (''t1'', TenantCache [(''student'', student)] [])]\<rparr>,
      Replied (Stringified (JObj [(''id'', JNum 5), (''name'', JStr ''Ann'')])))"
  by (simp add: parse_sample_find handler_defs sample_defs engine_defs)


text \<open>
  A method of a stored record that changes the record: after the sample's \<^verbatim>\<open>findById\<close>, a
  \<^verbatim>\<open>data\<close> request for \<^verbatim>\<open>setDataValue\<close> is answered \<^verbatim>\<open>null\<close>, and the tenant's cache
  holds the student as the method has left it.
\<close>

lemma sample_set:
  "serve node_engine parse_sample (connection sample_server) [find_text, set_text] =
     Some ((connection sample_server)
        \<lparr>props := [(''MySql'', Provider models), (''Mongo'', Provider mongo_database),
                   (''t1'', TenantCache [(''student'', student_renamed)] [])]\<rparr>,
      [Replied (Stringified (JObj [(''id'', JNum 5), (''name'', JStr ''Ann'')])),
       Replied (Stringified JNull)])"
proof -
  let ?s1 = "(connection sample_server)
        \<lparr>props := [(''MySql'', Provider models), (''Mongo'', Provider mongo_database),
                   (''t1'', TenantCache [(''student'', student)] [])]\<rparr>"
  have "on_data node_engine parse_sample ?s1 set_text =
          Some ((connection sample_server)
            \<lparr>props := [(''MySql'', Provider models), (''Mongo'', Provider mongo_database),
                       (''t1'', TenantCache [(''student'', student_renamed)] [])]\<rparr>,
           Replied (Stringified JNull))"
    by (simp add: parse_sample_set handler_defs sample_defs engine_defs write_back_def)
  then show ?thesis
    by (simp add: sample_find)
qed

section \<open>The client's pending result\<close>

text \<open>
  Claim C8 says that the pending result of a client request completes with the parsed
  payload of the next inbound message, and fails when that payload is an error message
  \<^verbatim>\<open>{error: string}\<close>. \<^verbatim>\<open>_write\<close> does not look at the payload: on an error message the
  pending result completes, with the error object as its value.
\<close>

theorem C8_error_payload_completes:
  "ModelClient_write parse_sample (Inr find_text) True (Some (DataEvent error_text)) =
     Completed (JObj [(''error'', JStr ''Signature does not match.'')])
   \<and> ModelClient_write parse_sample (Inr find_text) True (Some (DataEvent error_text)) \<noteq>
     Failed (Text ''Signature does not match.'')"
  by (simp add: ModelClient_write_def parse_sample_error error_payload_def)

text \<open>
  Claim C8 as amended: when the request text was written without backpressure and the
  next event of the socket is an inbound message that parses, the pending result
  completes with the parsed payload, whatever it is, an error message included.
\<close>

theorem C8_completes_with_parsed_payload:
  assumes "parse received = Inr payload"
  shows "ModelClient_write parse (Inr sent) True (Some (DataEvent received)) = Completed payload"
  using assms by (simp add: ModelClient_write_def)

theorem C8_completes_with_parsed_payload_witness:
  "parse_sample error_text = Inr error_payload
   \<and> ModelClient_write parse_sample (Inr find_text) True (Some (DataEvent error_text)) =
       Completed error_payload"
  using C8_completes_with_parsed_payload
    [where parse = parse_sample and received = error_text and payload = error_payload
       and sent = find_text]
  by (simp add: parse_sample_error)

section \<open>Messages rejected before dispatch\<close>




section \<open>Results that reach no handler\<close>

text \<open>
  Claim C2 says that when the provider method's promise fails, the server sends an error
  response with the failure's message. The handler attaches a success callback only. On
  the sample's \<^verbatim>\<open>count\<close>, whose promise fails with \<^verbatim>\<open>connection lost\<close>, nothing is
  written and the failure is left unhandled.
\<close>

theorem C2_rejection_unhandled:
  "on_data node_engine parse_sample (connection sample_server) count_text =
     Some ((connection sample_server)
        \<lparr>props := [(''MySql'', Provider models), (''Mongo'', Provider mongo_database),
                   (''t1'', TenantCache [] [])]\<rparr>,
      Unhandled (Text ''connection lost''))"
  by (simp add: parse_sample_count handler_defs sample_defs engine_defs)

text \<open>
  Claim C7 says that a request whose invocation resolves to \<^verbatim>\<open>undefined\<close> is answered
  with the payload \<^verbatim>\<open>null\<close>. On the sample's \<^verbatim>\<open>sync\<close>, a \<^verbatim>\<open>MySql\<close> request whose promise
  resolves to \<^verbatim>\<open>undefined\<close>, \<^verbatim>\<open>resolved\<close> replaces the value by \<^verbatim>\<open>null\<close> and then reads
  \<^verbatim>\<open>null.Model\<close> in \<^verbatim>\<open>_getModelName\<close>: the TypeError is thrown inside the promise's
  callback and nothing is written.
\<close>

theorem C7_undefined_unhandled:
  "on_data node_engine parse_sample (connection sample_server) sync_text =
     Some ((connection sample_server)
        \<lparr>props := [(''MySql'', Provider models), (''Mongo'', Provider mongo_database),
                   (''t1'', TenantCache [] [])]\<rparr>,
      Unhandled TypeErrorText)"
  by (simp add: parse_sample_sync handler_defs sample_defs engine_defs)

text \<open>
  Claim C1 says that after a successful direct request returning one record, a
  \<^verbatim>\<open>data\<close> request for the derived model name and a method of the cached record succeeds
  with the method's result as payload. The sample's \<^verbatim>\<open>findById\<close> stores the student;
  its method \<^verbatim>\<open>getDataValue\<close> returns \<^verbatim>\<open>null\<close>, not a promise. The handler then evaluates
  \<^verbatim>\<open>typeof promise === 'object' && promise.then\<close> on \<^verbatim>\<open>null\<close>, which throws, and the
  client is sent a TypeError instead of \<^verbatim>\<open>null\<close>.
\<close>

theorem C1_null_result_error:
  "serve node_engine parse_sample (connection sample_server) [find_text, getDataValue_text] =
     Some ((connection sample_server)
        \<lparr>props := [(''MySql'', Provider models), (''Mongo'', Provider mongo_database),
                   (''t1'', TenantCache [(''student'', student)] [])]\<rparr>,
      [Replied (Stringified (JObj [(''id'', JNum 5), (''name'', JStr ''Ann'')])),
       Replied (ErrorReply TypeErrorText)])"
proof -
  let ?s1 = "(connection sample_server)
        \<lparr>props := [(''MySql'', Provider models), (''Mongo'', Provider mongo_database),
                   (''t1'', TenantCache [(''student'', student)] [])]\<rparr>"
  have "on_data node_engine parse_sample ?s1 getDataValue_text =
          Some (?s1, Replied (ErrorReply TypeErrorText))"
    by (simp add: parse_sample_getDataValue handler_defs sample_defs engine_defs)
  then show ?thesis
    by (simp add: sample_find)
qed

section \<open>The socket after a failure\<close>

lemma on_data_valid:
  assumes "parse inbound = Inr data" and "truthy_json data"
    and "field data ''db'' \<in> {Some (JStr ''MySql''), Some (JStr ''Mongo''),
                                 Some (JStr ''data''), Some (JStr ''dataSets'')}"
  shows "on_data E parse socket inbound =
           (case at_dispatch E socket (field data ''db'') (field data ''tenant'') of
              None \<Rightarrow> None
            | Some socket1 \<Rightarrow>
                if field data ''db'' = Some (JStr ''Mongo'') then
                  mongo_branch E socket1 (field data ''db'') (field data ''tenant'')
                    (field data ''model'') (field data ''method'') (arguments (field data ''params''))
                else
                  other_branch E socket1 (field data ''db'') (field data ''tenant'')
                    (field data ''model'') (field data ''method'') (arguments (field data ''params'')))"
  using assms by (auto simp: on_data_def is_direct_def Let_def)

lemma map_of_update_other:
  "k \<noteq> a \<Longrightarrow> map_of (AList.update a v ps) k = map_of ps k"
  by (simp add: AList.update_conv')


lemma invoke_other_state:
  assumes "invoke_other E socket db tenant model method params = (r, socket1)"
  shows "socket1 = socket
         \<or> (\<exists>changed. write_back socket (to_key (if is_direct db then db else tenant))
                        (to_key (if is_direct db then tenant else db)) (to_key model) changed =
                      Some socket1)"
  using assms
  by (auto simp: invoke_other_def Let_def split: sum.splits prod.splits option.splits if_splits)






section \<open>Requests for what the cache does not hold\<close>




section \<open>The cache on a direct-provider request\<close>

lemma update_twice: "AList.update k v (AList.update k w ps) = AList.update k v ps"
  by (induction ps) auto

lemma fresh_most_one:
  "map_of (props socket) t = Some (TenantCache [] []) \<Longrightarrow> holds_at_most_one socket t"
  by (simp add: holds_at_most_one_def)

lemma resolved_single_most_one:
  assumes "map_of (props socket) t = Some (TenantCache [] [])"
    and "resolved_single E db t socket v = (socket1, r)"
  shows "holds_at_most_one socket1 t"
  using assms
  by (auto simp: resolved_single_def store_single_def holds_at_most_one_def AList.update_conv'
      split: sum.splits if_splits)

lemma resolved_array_most_one:
  assumes "map_of (props socket) t = Some (TenantCache [] [])"
    and "resolved_array E db t socket xs = (socket1, r)"
  shows "holds_at_most_one socket1 t"
  using assms
  by (auto simp: resolved_array_def store_set_def holds_at_most_one_def AList.update_conv' Let_def
      split: sum.splits prod.splits option.splits if_splits)

lemma resolved_most_one:
  assumes "map_of (props socket) t = Some (TenantCache [] [])"
    and "resolved E db t socket v = (socket1, r)"
  shows "holds_at_most_one socket1 t"
  using assms
  by (cases v) (auto intro: resolved_single_most_one resolved_array_most_one)

lemma then_resolved_most_one:
  assumes "map_of (props socket) t = Some (TenantCache [] [])"
    and "then_resolved E db t socket s = Some (socket1, r)"
  shows "holds_at_most_one socket1 t"
  using assms
  by (cases s)
     (auto simp del: resolved.simps split: prod.splits sum.splits fault.splits
           intro: resolved_most_one fresh_most_one)

lemma caught_same: "caught socket f = Some (socket1, r) \<Longrightarrow> socket1 = socket"
  by (auto simp: caught_def split: fault.splits)

lemma call_then_most_one:
  assumes "map_of (props socket) t = Some (TenantCache [] [])"
    and "call_then E db t socket v = Inr (socket1, r)"
  shows "holds_at_most_one socket1 t"
  using assms
  by (cases v)
     (auto simp del: then_resolved.simps split: option.splits sum.splits if_splits
           intro: then_resolved_most_one)

lemma then_in_try_most_one:
  assumes "map_of (props socket) t = Some (TenantCache [] [])"
    and "then_in_try E db t socket v = Some (socket1, r)"
  shows "holds_at_most_one socket1 t"
  using assms
  by (auto simp: then_in_try_def simp del: call_then.simps split: sum.splits
      dest: caught_same intro: call_then_most_one fresh_most_one)

lemma resolved_now_most_one:
  assumes "map_of (props socket) t = Some (TenantCache [] [])"
    and "resolved_now E db t socket v = Some (socket1, r)"
  shows "holds_at_most_one socket1 t"
  using assms
  by (auto simp: resolved_now_def simp del: resolved.simps split: prod.splits sum.splits
      dest!: caught_same intro: resolved_most_one)

lemma settle_result_most_one:
  assumes "map_of (props socket) t = Some (TenantCache [] [])"
    and "settle_result E db t socket v = Some (socket1, r)"
  shows "holds_at_most_one socket1 t"
  using assms
  by (cases v)
     (auto simp del: then_resolved.simps get_prop.simps split: if_splits sum.splits
           dest: caught_same
           intro: then_resolved_most_one fresh_most_one resolved_now_most_one then_in_try_most_one)

lemma write_back_keeps_fresh:
  assumes "write_back socket a b m r = Some socket1"
    and "map_of (props socket) t = Some (TenantCache [] [])"
  shows "map_of (props socket1) t = Some (TenantCache [] [])"
proof (cases "a = t")
  case True
  then show ?thesis
    using assms by (auto simp: write_back_def split: if_splits)
next
  case False
  then show ?thesis
    using assms
    by (auto simp: write_back_def map_of_update_other
        split: option.splits sval.splits if_splits val.splits)
qed


lemma mongo_branch_most_one:
  assumes "map_of (props socket) (to_key tenant) = Some (TenantCache [] [])"
    and "mongo_branch E socket db tenant model method params = Some (socket1, r)"
  shows "holds_at_most_one socket1 (to_key tenant)"
  using assms
  by (auto simp: mongo_branch_def split: sum.splits dest: caught_same
      intro: fresh_most_one then_in_try_most_one)

lemma other_branch_most_one:
  assumes "map_of (props socket) (to_key tenant) = Some (TenantCache [] [])"
    and "other_branch E socket db tenant model method params = Some (socket1, r)"
  shows "holds_at_most_one socket1 (to_key tenant)"
proof -
  obtain res socket2 where inv: "invoke_other E socket db tenant model method params = (res, socket2)"
    by (cases "invoke_other E socket db tenant model method params")
  have "db \<noteq> Some (JStr ''Mongo'') \<Longrightarrow> invoke E socket db tenant model method params = (res, socket2)"
    by (simp add: invoke_def inv)
  have fresh: "map_of (props socket2) (to_key tenant) = Some (TenantCache [] [])"
    using invoke_other_state [OF inv] assms(1) by (auto dest: write_back_keeps_fresh)
  show ?thesis
    using assms(2) fresh
    by (auto simp: other_branch_def inv split: sum.splits dest: caught_same
        intro: fresh_most_one settle_result_most_one)
qed

lemma on_data_direct:
  assumes "parse inbound = Inr data" and "truthy_json data"
    and "field data ''db'' = Some (JStr ''MySql'') \<or> field data ''db'' = Some (JStr ''Mongo'')"
  shows "on_data E parse socket inbound =
           (case at_dispatch E socket (field data ''db'') (field data ''tenant'') of
              None \<Rightarrow> None
            | Some socket1 \<Rightarrow>
                if field data ''db'' = Some (JStr ''Mongo'') then
                  mongo_branch E socket1 (field data ''db'') (field data ''tenant'')
                    (field data ''model'') (field data ''method'') (arguments (field data ''params''))
                else
                  other_branch E socket1 (field data ''db'') (field data ''tenant'')
                    (field data ''model'') (field data ''method'') (arguments (field data ''params'')))"
  using assms by (intro on_data_valid) auto

lemma at_dispatch_direct:
  assumes "is_direct db" and "at_dispatch E socket db tenant = Some socket1"
  shows "map_of (props socket1) (to_key tenant) = Some (TenantCache [] [])"
  using assms by (auto simp: at_dispatch_def AList.update_conv' split: if_splits)


lemma on_data_direct_most_one:
  assumes "parse inbound = Inr data" and "truthy_json data"
    and "field data ''db'' = Some (JStr ''MySql'') \<or> field data ''db'' = Some (JStr ''Mongo'')"
    and "on_data E parse socket inbound = Some (socket1, r)"
  shows "holds_at_most_one socket1 (to_key (field data ''tenant''))"
proof -
  have direct: "is_direct (field data ''db'')"
    using assms(3) by (auto simp: is_direct_def)
  from assms(4) obtain dispatched
    where start: "at_dispatch E socket (field data ''db'') (field data ''tenant'') = Some dispatched"
    unfolding on_data_direct [of parse inbound data E socket, OF assms(1-3)]
    by (auto split: option.splits)
  have fresh: "map_of (props dispatched) (to_key (field data ''tenant'')) = Some (TenantCache [] [])"
    using at_dispatch_direct [OF direct start] .
  show ?thesis
    using assms(4) fresh
    unfolding on_data_direct [of parse inbound data E socket, OF assms(1-3)]
    by (auto simp: start split: if_splits
        intro: mongo_branch_most_one other_branch_most_one)
qed





section \<open>A tenant called like a provider\<close>

lemma is_cache_update:
  "is_cache (map_of ps k) \<Longrightarrow> is_cache (map_of (AList.update t (TenantCache d s) ps) k)"
  by (simp add: AList.update_conv')

lemma store_single_keeps_caches:
  assumes "is_cache (map_of (props socket) k)" and "store_single socket t name v = Inr socket1"
  shows "is_cache (map_of (props socket1) k)"
  using assms
  by (auto simp: store_single_def AList.update_conv' split: option.splits sval.splits)

lemma store_set_keeps_caches:
  assumes "is_cache (map_of (props socket) k)" and "store_set socket t name xs = Inr (socket1, a)"
  shows "is_cache (map_of (props socket1) k)"
  using assms
  by (auto simp: store_set_def AList.update_conv' Let_def split: option.splits sval.splits)

lemma resolved_single_keeps_caches:
  assumes "is_cache (map_of (props socket) k)" and "resolved_single E db t socket v = (socket1, r)"
  shows "is_cache (map_of (props socket1) k)"
  using assms
  by (auto simp: resolved_single_def split: sum.splits if_splits dest: store_single_keeps_caches)

lemma resolved_array_keeps_caches:
  assumes "is_cache (map_of (props socket) k)" and "resolved_array E db t socket xs = (socket1, r)"
  shows "is_cache (map_of (props socket1) k)"
  using assms
  by (auto simp: resolved_array_def Let_def split: sum.splits if_splits prod.splits option.splits
      dest: store_set_keeps_caches)

lemma resolved_keeps_caches:
  assumes "is_cache (map_of (props socket) k)" and "resolved E db t socket v = (socket1, r)"
  shows "is_cache (map_of (props socket1) k)"
  using assms
  by (cases v) (auto dest: resolved_single_keeps_caches resolved_array_keeps_caches)

lemma then_resolved_keeps_caches:
  assumes "is_cache (map_of (props socket) k)" and "then_resolved E db t socket s = Some (socket1, r)"
  shows "is_cache (map_of (props socket1) k)"
  using assms
  by (cases s)
     (auto simp del: resolved.simps split: prod.splits sum.splits fault.splits
           dest: resolved_keeps_caches)

lemma call_then_keeps_caches:
  assumes "is_cache (map_of (props socket) k)" and "call_then E db t socket v = Inr (socket1, r)"
  shows "is_cache (map_of (props socket1) k)"
  using assms
  by (cases v)
     (auto simp del: then_resolved.simps split: option.splits sum.splits if_splits
           dest: then_resolved_keeps_caches)

lemma then_in_try_keeps_caches:
  assumes "is_cache (map_of (props socket) k)" and "then_in_try E db t socket v = Some (socket1, r)"
  shows "is_cache (map_of (props socket1) k)"
  using assms
  by (auto simp: then_in_try_def simp del: call_then.simps split: sum.splits
      dest: caught_same call_then_keeps_caches)

lemma resolved_now_keeps_caches:
  assumes "is_cache (map_of (props socket) k)" and "resolved_now E db t socket v = Some (socket1, r)"
  shows "is_cache (map_of (props socket1) k)"
  using assms
  by (auto simp: resolved_now_def simp del: resolved.simps split: prod.splits sum.splits
      dest!: caught_same dest: resolved_keeps_caches)

lemma settle_result_keeps_caches:
  assumes "is_cache (map_of (props socket) k)" and "settle_result E db t socket v = Some (socket1, r)"
  shows "is_cache (map_of (props socket1) k)"
  using assms
  by (cases v)
     (auto simp del: then_resolved.simps get_prop.simps split: if_splits sum.splits
           dest: caught_same then_resolved_keeps_caches resolved_now_keeps_caches
                 then_in_try_keeps_caches)

lemma write_back_keeps_caches:
  assumes "write_back socket a b m r = Some socket1" and "is_cache (map_of (props socket) k)"
  shows "is_cache (map_of (props socket1) k)"
proof (cases "a = k")
  case True
  then show ?thesis
    using assms
    by (auto simp: write_back_def AList.update_conv'
        split: option.splits sval.splits if_splits val.splits)
next
  case False
  then show ?thesis
    using assms
    by (auto simp: write_back_def map_of_update_other
        split: option.splits sval.splits if_splits val.splits)
qed

lemma mongo_branch_keeps_caches:
  assumes "is_cache (map_of (props socket) k)"
    and "mongo_branch E socket db tenant model method params = Some (socket1, r)"
  shows "is_cache (map_of (props socket1) k)"
  using assms
  by (auto simp: mongo_branch_def split: sum.splits
      dest: caught_same then_in_try_keeps_caches)

lemma other_branch_keeps_caches:
  assumes "is_cache (map_of (props socket) k)"
    and "other_branch E socket db tenant model method params = Some (socket1, r)"
  shows "is_cache (map_of (props socket1) k)"
proof -
  obtain res socket2 where inv: "invoke_other E socket db tenant model method params = (res, socket2)"
    by (cases "invoke_other E socket db tenant model method params")
  have kept: "is_cache (map_of (props socket2) k)"
    using invoke_other_state [OF inv] assms(1) by (auto dest: write_back_keeps_caches)
  show ?thesis
    using assms(2) kept
    by (auto simp: other_branch_def inv split: sum.splits
        dest: caught_same settle_result_keeps_caches)
qed

lemma at_dispatch_keeps_caches:
  assumes "is_cache (map_of (props socket) k)" and "at_dispatch E socket db tenant = Some socket1"
  shows "is_cache (map_of (props socket1) k)"
  using assms by (auto simp: at_dispatch_def is_cache_update split: if_splits)

lemma on_data_keeps_caches:
  assumes "is_cache (map_of (props socket) k)"
    and "on_data E parse socket inbound = Some (socket1, r)"
  shows "is_cache (map_of (props socket1) k)"
  using assms(2,1) unfolding on_data_def Let_def
  by (auto split: sum.splits if_splits option.splits
      dest!: mongo_branch_keeps_caches [rotated] other_branch_keeps_caches [rotated]
      dest: at_dispatch_keeps_caches)

lemma serve_keeps_caches:
  "is_cache (map_of (props socket) k) \<Longrightarrow> serve E parse socket texts = Some (socket1, rs) \<Longrightarrow>
     is_cache (map_of (props socket1) k)"
proof (induction texts arbitrary: socket rs)
  case Nil
  then show ?case by simp
next
  case (Cons t texts)
  from Cons.prems(2) obtain socket2 r rs2
    where step: "on_data E parse socket t = Some (socket2, r)"
      and rest: "serve E parse socket2 texts = Some (socket1, rs2)"
    by (auto split: option.splits)
  from on_data_keeps_caches [OF Cons.prems(1) step]
  have "is_cache (map_of (props socket2) k)" .
  from Cons.IH [OF this rest] show ?case .
qed

lemma on_data_direct_is_cache:
  assumes "parse inbound = Inr data" and "truthy_json data"
    and "field data ''db'' = Some (JStr ''MySql'') \<or> field data ''db'' = Some (JStr ''Mongo'')"
    and "on_data E parse socket inbound = Some (socket1, r)"
  shows "is_cache (map_of (props socket1) (to_key (field data ''tenant'')))"
proof -
  have direct: "is_direct (field data ''db'')"
    using assms(3) by (auto simp: is_direct_def)
  from assms(4) obtain dispatched
    where start: "at_dispatch E socket (field data ''db'') (field data ''tenant'') = Some dispatched"
    unfolding on_data_direct [of parse inbound data E socket, OF assms(1-3)]
    by (auto split: option.splits)
  have "is_cache (map_of (props dispatched) (to_key (field data ''tenant'')))"
    using at_dispatch_direct [OF direct start] by simp
  then show ?thesis
    using assms(4)
    unfolding on_data_direct [of parse inbound data E socket, OF assms(1-3)]
    by (auto simp: start split: if_splits
        dest: mongo_branch_keeps_caches other_branch_keeps_caches)
qed

lemma at_dispatch_present:
  assumes "is_direct db" and "map_of (props socket) (to_key tenant) \<noteq> None"
  shows "at_dispatch E (socket\<lparr>props := AList.update (to_key tenant) x (props socket)\<rparr>) db tenant =
         at_dispatch E socket db tenant"
  using assms by (simp add: at_dispatch_def update_twice AList.update_conv')

lemma on_data_overwrites:
  assumes "parse inbound = Inr data" and "truthy_json data"
    and "field data ''db'' = Some (JStr ''MySql'') \<or> field data ''db'' = Some (JStr ''Mongo'')"
    and "map_of (props socket) (to_key (field data ''tenant'')) \<noteq> None"
  shows "on_data E parse (socket\<lparr>props := AList.update (to_key (field data ''tenant'')) x (props socket)\<rparr>)
           inbound = on_data E parse socket inbound"
proof -
  have direct: "is_direct (field data ''db'')"
    using assms(3) by (auto simp: is_direct_def)
  show ?thesis
    unfolding on_data_direct [of parse inbound data, OF assms(1-3)]
    by (simp only: at_dispatch_present [OF direct assms(4)])
qed

text \<open>
  Claim C9: a \<^verbatim>\<open>MySql\<close> or \<^verbatim>\<open>Mongo\<close> request whose tenant is the string \<^verbatim>\<open>MySql\<close> or
  \<^verbatim>\<open>Mongo\<close> overwrites the socket's reference to that provider with the tenant's cache
  object, so that no later request of the connection resolves that provider's models.
  After the request the property is the tenant's cache object, holding at most the one
  entry that the request has stored; it still is a cache object after any further
  messages; and this request and all that follow are handled the same whatever provider
  the property referred to, so that nothing of the provider is reached through it.
\<close>

theorem C9_provider_reference_overwritten:
  assumes "parse inbound = Inr data" and "truthy_json data"
    and "field data ''db'' = Some (JStr ''MySql'') \<or> field data ''db'' = Some (JStr ''Mongo'')"
    and "field data ''tenant'' = Some (JStr p)"
    and "p = ''MySql'' \<or> p = ''Mongo''"
    and "map_of (props socket) p = Some (Provider provider)"
  shows "(on_data E parse socket inbound = Some (reached, r)
            \<longrightarrow> holds_at_most_one reached p)
         \<and> (serve E parse socket (inbound # later) = Some (final, rs)
            \<longrightarrow> is_cache (map_of (props final) p))
         \<and> serve E parse (socket\<lparr>props := AList.update p (Provider other) (props socket)\<rparr>)
               (inbound # later) =
             serve E parse socket (inbound # later)"
proof (intro conjI impI)
  have key: "to_key (field data ''tenant'') = p"
    using assms(4) by (simp add: to_key_def)
  have present: "map_of (props socket) (to_key (field data ''tenant'')) \<noteq> None"
    using assms(6) by (simp add: key)
  {
    assume "on_data E parse socket inbound = Some (reached, r)"
    from on_data_direct_most_one [OF assms(1-3) this]
    show "holds_at_most_one reached p"
      by (simp add: key)
  }
  {
    assume "serve E parse socket (inbound # later) = Some (final, rs)"
    then obtain middle r2 rs2
      where step: "on_data E parse socket inbound = Some (middle, r2)"
        and rest: "serve E parse middle later = Some (final, rs2)"
      by (auto split: option.splits)
    from on_data_direct_is_cache [OF assms(1-3) step]
    have "is_cache (map_of (props middle) p)"
      by (simp add: key)
    from serve_keeps_caches [OF this rest]
    show "is_cache (map_of (props final) p)" .
  }
  show "serve E parse (socket\<lparr>props := AList.update p (Provider other) (props socket)\<rparr>)
               (inbound # later) =
             serve E parse socket (inbound # later)"
    using on_data_overwrites [of parse inbound data socket E "Provider other", OF assms(1-3) present]
    by (simp add: key)
qed

theorem C9_provider_reference_overwritten_witness:
  "parse_sample own_name_text = Inr own_name_request
   \<and> field own_name_request ''tenant'' = Some (JStr ''MySql'')
   \<and> map_of (props (connection sample_server)) ''MySql'' = Some (Provider models)
   \<and> serve node_engine parse_sample (connection sample_server) [own_name_text, find_text] =
       Some ((connection sample_server)
          \<lparr>props := [(''MySql'', TenantCache [] []), (''Mongo'', Provider mongo_database),
                     (''t1'', TenantCache [] [])]\<rparr>,
        [Replied (ErrorReply TypeErrorText), Replied (ErrorReply TypeErrorText)])
   \<and> holds_at_most_one
        (fst (the (on_data node_engine parse_sample (connection sample_server) own_name_text)))
        ''MySql''
   \<and> is_cache (map_of (props (fst (the (serve node_engine parse_sample (connection sample_server)
         [own_name_text, find_text])))) ''MySql'')
   \<and> serve node_engine parse_sample
         ((connection sample_server)
            \<lparr>props := AList.update ''MySql'' (Provider models_with_data)
                         (props (connection sample_server))\<rparr>) [own_name_text, find_text] =
       serve node_engine parse_sample (connection sample_server) [own_name_text, find_text]"
proof -
  let ?m = "(connection sample_server)
          \<lparr>props := [(''MySql'', TenantCache [] []), (''Mongo'', Provider mongo_database)]\<rparr>"
  let ?f = "(connection sample_server)
          \<lparr>props := [(''MySql'', TenantCache [] []), (''Mongo'', Provider mongo_database),
                     (''t1'', TenantCache [] [])]\<rparr>"
  have truthy: "truthy_json own_name_request"
    by (simp add: own_name_request_def)
  have db: "field own_name_request ''db'' = Some (JStr ''MySql'') \<or>
            field own_name_request ''db'' = Some (JStr ''Mongo'')"
    by (simp add: own_name_request_def)
  have tenant: "field own_name_request ''tenant'' = Some (JStr ''MySql'')"
    by (simp add: own_name_request_def)
  have which: "''MySql'' = ''MySql'' \<or> ''MySql'' = ''Mongo''"
    by simp
  have held: "map_of (props (connection sample_server)) ''MySql'' = Some (Provider models)"
    by (simp add: connection_def sample_server_def ModelServer_def)
  have one: "on_data node_engine parse_sample (connection sample_server) own_name_text =
      Some (?m, Replied (ErrorReply TypeErrorText))"
    by (simp add: parse_sample_own_name handler_defs sample_defs engine_defs)
  have two: "on_data node_engine parse_sample ?m find_text =
      Some (?f, Replied (ErrorReply TypeErrorText))"
    by (simp add: parse_sample_find handler_defs sample_defs engine_defs)
  have run: "serve node_engine parse_sample (connection sample_server) [own_name_text, find_text] =
      Some (?f, [Replied (ErrorReply TypeErrorText), Replied (ErrorReply TypeErrorText)])"
    by (simp add: one two)
  note inst = C9_provider_reference_overwritten [where parse = parse_sample
      and inbound = own_name_text and data = own_name_request and p = "''MySql''"
      and socket = "connection sample_server" and provider = models and E = node_engine
      and later = "[find_text]" and final = ?f and reached = ?m
      and r = "Replied (ErrorReply TypeErrorText)"
      and rs = "[Replied (ErrorReply TypeErrorText), Replied (ErrorReply TypeErrorText)]"
      and other = models_with_data,
      OF parse_sample_own_name truthy db tenant which held]
  have fresh: "holds_at_most_one ?m ''MySql''"
    using inst one by blast
  have cache: "is_cache (map_of (props ?f) ''MySql'')"
    using inst run by blast
  have same: "serve node_engine parse_sample
         ((connection sample_server)
            \<lparr>props := AList.update ''MySql'' (Provider models_with_data)
                         (props (connection sample_server))\<rparr>) [own_name_text, find_text] =
       serve node_engine parse_sample (connection sample_server) [own_name_text, find_text]"
    using inst by blast
  show ?thesis
    using parse_sample_own_name tenant held fresh cache same
    by (simp only: one run option.sel fst_conv simp_thms)
qed

section \<open>What the cache holds after a direct-provider request\<close>

lemma forEach_plain_all:
  "forEach_plain E db acc xs = (ys, None) \<Longrightarrow>
     \<exists>zs. ys = acc @ zs \<and> list_all2 (\<lambda>x y. getPlainObject E x db = Inr y) xs zs"
proof (induction xs arbitrary: acc)
  case Nil
  then show ?case by simp
next
  case (Cons x xs)
  then obtain y where y: "getPlainObject E x db = Inr y"
    and rest: "forEach_plain E db (acc @ [y]) xs = (ys, None)"
    by (auto split: sum.splits)
  from Cons.IH [OF rest] obtain zs where "ys = (acc @ [y]) @ zs"
    and "list_all2 (\<lambda>x y. getPlainObject E x db = Inr y) xs zs"
    by blast
  with y show ?case
    by (intro exI [of _ "y # zs"]) simp
qed

lemma deref_appended: "deref (h @ [xs]) (length h) = xs"
  by (simp add: deref_def)

text \<open>
  Claim C10: when a \<^verbatim>\<open>MySql\<close> or \<^verbatim>\<open>Mongo\<close> call resolves to an array, the array object is
  stored in the tenant's \<^verbatim>\<open>dataSets\<close> and then its elements are replaced in place by their
  plain forms, so that the stored set holds the plain forms; a record that is not an array
  is stored as the instance it is, and only the value sent is its plain form. Here \<open>a\<close> is
  the address the array gets: \<^verbatim>\<open>store_set\<close> puts the array \<open>xs\<close> there, and when
  \<^verbatim>\<open>resolved\<close> ends the same address holds \<open>ys\<close>, the plain form of each element of \<open>xs\<close>.
\<close>

theorem C10_stored_then_normalized:
  assumes "is_direct db"
    and "map_of (props socket) tenant = Some (TenantCache d s)"
    and "a = length (heap socket)"
  shows "(array_prop E xs ''0'' = Inr x \<and> getModelName E x = Inr name
            \<and> forEach_plain E db [] xs = (ys, None)
            \<longrightarrow> store_set socket tenant name xs =
                  Inr (socket\<lparr>props := AList.update tenant (TenantCache d (AList.update name a s)) (props socket),
                             heap := heap socket @ [xs]\<rparr>, a)
                \<and> resolved E db tenant socket (VArr xs) =
                  (socket\<lparr>props := AList.update tenant (TenantCache d (AList.update name a s)) (props socket),
                          heap := heap socket @ [ys]\<rparr>,
                   write_record E
                     (socket\<lparr>props := AList.update tenant (TenantCache d (AList.update name a s)) (props socket),
                             heap := heap socket @ [ys]\<rparr>)
                     (VArr ys))
                \<and> list_all2 (\<lambda>x y. getPlainObject E x db = Inr y) xs ys)
         \<and> (getModelName E (VObj p ps) = Inr name \<and> getPlainObject E (VObj p ps) db = Inr plain
            \<longrightarrow> resolved E db tenant socket (VObj p ps) =
                  (socket\<lparr>props := AList.update tenant (TenantCache (AList.update name (VObj p ps) d) s) (props socket)\<rparr>,
                   write_record E
                     (socket\<lparr>props := AList.update tenant (TenantCache (AList.update name (VObj p ps) d) s) (props socket)\<rparr>)
                     plain))"
proof (intro conjI impI)
  assume h: "array_prop E xs ''0'' = Inr x \<and> getModelName E x = Inr name
            \<and> forEach_plain E db [] xs = (ys, None)"
  show stored: "store_set socket tenant name xs =
                  Inr (socket\<lparr>props := AList.update tenant (TenantCache d (AList.update name a s)) (props socket),
                             heap := heap socket @ [xs]\<rparr>, a)"
    using assms(2,3) by (simp add: store_set_def Let_def)
  show "resolved E db tenant socket (VArr xs) =
                  (socket\<lparr>props := AList.update tenant (TenantCache d (AList.update name a s)) (props socket),
                          heap := heap socket @ [ys]\<rparr>,
                   write_record E
                     (socket\<lparr>props := AList.update tenant (TenantCache d (AList.update name a s)) (props socket),
                             heap := heap socket @ [ys]\<rparr>)
                     (VArr ys))"
    using assms(1,3) h
    by (simp add: resolved_array_def stored deref_appended Let_def)
  from forEach_plain_all [of E db "[]" xs ys] h
  show "list_all2 (\<lambda>x y. getPlainObject E x db = Inr y) xs ys"
    by auto
next
  assume h: "getModelName E (VObj p ps) = Inr name \<and> getPlainObject E (VObj p ps) db = Inr plain"
  show "resolved E db tenant socket (VObj p ps) =
                  (socket\<lparr>props := AList.update tenant (TenantCache (AList.update name (VObj p ps) d) s) (props socket)\<rparr>,
                   write_record E
                     (socket\<lparr>props := AList.update tenant (TenantCache (AList.update name (VObj p ps) d) s) (props socket)\<rparr>)
                     plain)"
    using assms(1,2) h
    by (simp add: resolved_single_def store_single_def)
qed

theorem C10_stored_then_normalized_witness:
  "is_direct (Some (JStr ''MySql''))
   \<and> array_prop node_engine [student] ''0'' = Inr student
   \<and> getModelName node_engine student = Inr ''student''
   \<and> forEach_plain node_engine (Some (JStr ''MySql'')) [] [student] = ([student_plain], None)
   \<and> getPlainObject node_engine student (Some (JStr ''MySql'')) = Inr student_plain
   \<and> resolved node_engine (Some (JStr ''MySql'')) ''t1''
        \<lparr>props = [(''t1'', TenantCache [] [])], heap = [], destroyed = False\<rparr> (VArr [student]) =
       (\<lparr>props = [(''t1'', TenantCache [] [(''student'', 0)])], heap = [[student_plain]],
         destroyed = False\<rparr>,
        Inr (Stringified (JArr [JObj [(''id'', JNum 5), (''name'', JStr ''Ann'')]])))
   \<and> resolved node_engine (Some (JStr ''MySql'')) ''t1''
        \<lparr>props = [(''t1'', TenantCache [] [])], heap = [], destroyed = False\<rparr> student =
       (\<lparr>props = [(''t1'', TenantCache [(''student'', student)] [])], heap = [],
         destroyed = False\<rparr>,
        Inr (Stringified (JObj [(''id'', JNum 5), (''name'', JStr ''Ann'')])))"
proof -
  let ?socket = "\<lparr>props = [(''t1'', TenantCache [] [])], heap = [], destroyed = False\<rparr>"
  have direct: "is_direct (Some (JStr ''MySql''))"
    by (simp add: is_direct_def)
  have cache: "map_of (props ?socket) ''t1'' = Some (TenantCache [] [])"
    by simp
  have addr: "0 = length (heap ?socket)"
    by simp
  have first: "array_prop node_engine [student] ''0'' = Inr student"
    by (simp add: array_prop_def index_of_def show_nat.simps digit_char_def)
  have name: "getModelName node_engine student = Inr ''student''"
    by (simp add: getModelName_def student_def to_lower_def)
  have plain: "getPlainObject node_engine student (Some (JStr ''MySql'')) = Inr student_plain"
    by (simp add: getPlainObject_def student_def call_reading_def)
  have each: "forEach_plain node_engine (Some (JStr ''MySql'')) [] [student] = ([student_plain], None)"
    by (simp add: plain)
  have text_set: "write_record node_engine
       \<lparr>props = [(''t1'', TenantCache [] [(''student'', 0)])], heap = [[student_plain]],
         destroyed = False\<rparr> (VArr [student_plain]) =
       Inr (Stringified (JArr [JObj [(''id'', JNum 5), (''name'', JStr ''Ann'')]]))"
    by (simp add: write_record_def stringify_def student_plain_def socket_write_def Let_def
        show_nat.simps digit_char_def engine_defs)
  have text_single: "write_record node_engine
       \<lparr>props = [(''t1'', TenantCache [(''student'', student)] [])], heap = [],
         destroyed = False\<rparr> student_plain =
       Inr (Stringified (JObj [(''id'', JNum 5), (''name'', JStr ''Ann'')]))"
    by (simp add: write_record_def stringify_def student_plain_def socket_write_def Let_def
        engine_defs)
  obtain p ps where obj: "student = VObj p ps"
    by (simp add: student_def)
  from C10_stored_then_normalized [OF direct cache addr, of node_engine "[student]" student
      "''student''" "[student_plain]" p ps student_plain]
  show ?thesis
    using direct first name plain each text_set text_single by (simp add: obj [symmetric])
qed

end
